theory Spec2Isabelle
  imports Complex_Main "HOL-Library.AList"
begin

section \<open>Numbers, vectors and boxes of the render backend\<close>

text \<open>
  A JavaScript number is modelled with its three special values written out. Arithmetic on
  finite values is exact (rounding and overflow of the 64-bit format are not modelled); the
  special values propagate as IEEE 754 prescribes. Zero carries no sign: a finite non-zero
  value divided by zero is taken with the sign of the dividend, which is what the source
  obtains wherever it divides (the quotient is passed through \<open>Math.abs\<close> or the divisor
  is a length).
\<close>

datatype jsnum = Fin real | PInf | NInf | NaN

fun isFinite :: "jsnum \<Rightarrow> bool" where
  "isFinite (Fin _) = True"
| "isFinite _ = False"

fun js_neg :: "jsnum \<Rightarrow> jsnum" where
  "js_neg (Fin a) = Fin (- a)"
| "js_neg PInf = NInf"
| "js_neg NInf = PInf"
| "js_neg NaN = NaN"

fun js_add :: "jsnum \<Rightarrow> jsnum \<Rightarrow> jsnum" where
  "js_add NaN _ = NaN"
| "js_add _ NaN = NaN"
| "js_add (Fin a) (Fin b) = Fin (a + b)"
| "js_add PInf NInf = NaN"
| "js_add NInf PInf = NaN"
| "js_add PInf _ = PInf"
| "js_add _ PInf = PInf"
| "js_add NInf _ = NInf"
| "js_add _ NInf = NInf"

definition js_sub :: "jsnum \<Rightarrow> jsnum \<Rightarrow> jsnum" where
  "js_sub a b = js_add a (js_neg b)"

text \<open>The sign of a number: \<open>1\<close>, \<open>-1\<close>, or \<open>0\<close> for zero (and for NaN, never consulted).\<close>

fun js_sign :: "jsnum \<Rightarrow> int" where
  "js_sign (Fin a) = (if a > 0 then 1 else if a < 0 then - 1 else 0)"
| "js_sign PInf = 1"
| "js_sign NInf = - 1"
| "js_sign NaN = 0"

definition signedInf :: "int \<Rightarrow> jsnum" where
  "signedInf s = (if s > 0 then PInf else if s < 0 then NInf else NaN)"

fun js_mul :: "jsnum \<Rightarrow> jsnum \<Rightarrow> jsnum" where
  "js_mul NaN _ = NaN"
| "js_mul _ NaN = NaN"
| "js_mul (Fin a) (Fin b) = Fin (a * b)"
| "js_mul a b = signedInf (js_sign a * js_sign b)"

fun js_div :: "jsnum \<Rightarrow> jsnum \<Rightarrow> jsnum" where
  "js_div NaN _ = NaN"
| "js_div _ NaN = NaN"
| "js_div (Fin a) (Fin b) = (if b = 0 then signedInf (js_sign (Fin a)) else Fin (a / b))"
| "js_div (Fin a) _ = Fin 0"
| "js_div a (Fin b) = signedInf (js_sign a * (if b < 0 then - 1 else 1))"
| "js_div _ _ = NaN"

fun js_abs :: "jsnum \<Rightarrow> jsnum" where
  "js_abs (Fin a) = Fin \<bar>a\<bar>"
| "js_abs PInf = PInf"
| "js_abs NInf = PInf"
| "js_abs NaN = NaN"

text \<open>The comparison \<open>a > b\<close>: false as soon as an operand is NaN.\<close>

fun js_gt :: "jsnum \<Rightarrow> jsnum \<Rightarrow> bool" where
  "js_gt NaN _ = False"
| "js_gt _ NaN = False"
| "js_gt (Fin a) (Fin b) = (a > b)"
| "js_gt PInf PInf = False"
| "js_gt PInf _ = True"
| "js_gt _ PInf = False"
| "js_gt NInf _ = False"
| "js_gt _ NInf = True"

definition js_lt :: "jsnum \<Rightarrow> jsnum \<Rightarrow> bool" where
  "js_lt a b = js_gt b a"

text \<open>Strict equality \<open>a === b\<close> on numbers: NaN equals nothing.\<close>

definition js_eq :: "jsnum \<Rightarrow> jsnum \<Rightarrow> bool" where
  "js_eq a b = (a \<noteq> NaN \<and> b \<noteq> NaN \<and> a = b)"

text \<open>\<open>Math.max\<close> of two numbers, and of three as the source calls it.\<close>

fun js_max :: "jsnum \<Rightarrow> jsnum \<Rightarrow> jsnum" where
  "js_max NaN _ = NaN"
| "js_max _ NaN = NaN"
| "js_max a b = (if js_gt b a then b else a)"

definition js_max3 :: "jsnum \<Rightarrow> jsnum \<Rightarrow> jsnum \<Rightarrow> jsnum" where
  "js_max3 a b c = js_max (js_max a b) c"

text \<open>
  \<open>Math.tan\<close>: NaN at the infinities. At an exact pole of the tangent, which no
  floating-point argument reaches, the model answers NaN.
\<close>

fun js_tan :: "jsnum \<Rightarrow> jsnum" where
  "js_tan (Fin a) = (if cos a = 0 then NaN else Fin (tan a))"
| "js_tan _ = NaN"

fun js_sqrt :: "jsnum \<Rightarrow> jsnum" where
  "js_sqrt (Fin a) = (if a < 0 then NaN else Fin (sqrt a))"
| "js_sqrt PInf = PInf"
| "js_sqrt _ = NaN"

text \<open>Truthiness of a number, as in \<open>x || 1\<close> and \<open>if (xhr.total)\<close>: zero and NaN are falsy.\<close>

fun truthy :: "jsnum \<Rightarrow> bool" where
  "truthy (Fin a) = (a \<noteq> 0)"
| "truthy NaN = False"
| "truthy _ = True"

datatype vec3 = Vec3 (vx: jsnum) (vy: jsnum) (vz: jsnum)

definition zero3 :: vec3 where
  "zero3 = Vec3 (Fin 0) (Fin 0) (Fin 0)"

fun v_add :: "vec3 \<Rightarrow> vec3 \<Rightarrow> vec3" where
  "v_add (Vec3 a b c) (Vec3 d e f) = Vec3 (js_add a d) (js_add b e) (js_add c f)"

fun v_sub :: "vec3 \<Rightarrow> vec3 \<Rightarrow> vec3" where
  "v_sub (Vec3 a b c) (Vec3 d e f) = Vec3 (js_sub a d) (js_sub b e) (js_sub c f)"

fun multiplyScalar :: "vec3 \<Rightarrow> jsnum \<Rightarrow> vec3" where
  "multiplyScalar (Vec3 a b c) s = Vec3 (js_mul a s) (js_mul b s) (js_mul c s)"

fun lengthSq :: "vec3 \<Rightarrow> jsnum" where
  "lengthSq (Vec3 a b c) = js_add (js_add (js_mul a a) (js_mul b b)) (js_mul c c)"

definition v_length :: "vec3 \<Rightarrow> jsnum" where
  "v_length v = js_sqrt (lengthSq v)"

text \<open>
  \<open>Vector3.divideScalar(s)\<close> is \<open>multiplyScalar(1 / s)\<close>, and \<open>Vector3.normalize()\<close> is
  \<open>divideScalar(length() || 1)\<close>.
\<close>

definition divideScalar :: "vec3 \<Rightarrow> jsnum \<Rightarrow> vec3" where
  "divideScalar v s = multiplyScalar v (js_div (Fin 1) s)"

definition normalize :: "vec3 \<Rightarrow> vec3" where
  "normalize v = divideScalar v (if truthy (v_length v) then v_length v else Fin 1)"


text \<open>
  \<open>THREE.Box3\<close>: a box is empty when some maximum lies below its minimum; the size and the
  centre of an empty box are the zero vector.
\<close>

datatype box3 = Box3 (bmin: vec3) (bmax: vec3)

definition isEmpty :: "box3 \<Rightarrow> bool" where
  "isEmpty b = (js_lt (vx (bmax b)) (vx (bmin b)) \<or> js_lt (vy (bmax b)) (vy (bmin b))
     \<or> js_lt (vz (bmax b)) (vz (bmin b)))"

definition getSize :: "box3 \<Rightarrow> vec3" where
  "getSize b = (if isEmpty b then zero3 else v_sub (bmax b) (bmin b))"

definition getCenter :: "box3 \<Rightarrow> vec3" where
  "getCenter b = (if isEmpty b then zero3 else multiplyScalar (v_add (bmin b) (bmax b)) (Fin (1/2)))"

section \<open>Node names and part identities\<close>

text \<open>
  Names are strings of code units below 256 (ASCII and Latin-1); names with code units
  beyond that range are outside the model. \<open>toLowerCase\<close> maps the letters A to Z and
  the Latin-1 capitals (codes 192 to 222 except the multiplication sign 215) to their
  small letters (it sets bit 5 of the code, which adds 32) and leaves every other
  character alone; \<open>trim\<close> removes the white space of that range (tab, line feed,
  vertical tab, form feed, carriage return, space, no-break space) at both ends.
  \<open>splitHead\<close> is \<open>name.split("-")[0]\<close>: the text before the first dash, the whole name
  when it has none.
\<close>

fun toLowerChar :: "char \<Rightarrow> char" where
  "toLowerChar (Char b0 b1 b2 b3 b4 b5 b6 b7) =
     (let n = (of_char (Char b0 b1 b2 b3 b4 b5 b6 b7) :: nat)
      in if (65 \<le> n \<and> n \<le> 90) \<or> (192 \<le> n \<and> n \<le> 222 \<and> n \<noteq> 215)
         then Char b0 b1 b2 b3 b4 True b6 b7
         else Char b0 b1 b2 b3 b4 b5 b6 b7)"

definition toLowerCase :: "string \<Rightarrow> string" where
  "toLowerCase s = map toLowerChar s"

definition isSpace :: "char \<Rightarrow> bool" where
  "isSpace c = (c \<in> set [CHR 0x09, CHR 0x0A, CHR 0x0B, CHR 0x0C, CHR 0x0D, CHR '' '', CHR 0xA0])"

definition trim :: "string \<Rightarrow> string" where
  "trim s = rev (dropWhile isSpace (rev (dropWhile isSpace s)))"

definition splitHead :: "string \<Rightarrow> string" where
  "splitHead s = takeWhile (\<lambda>c. c \<noteq> CHR ''-'') s"

text \<open>The key as each call site of the source derives it.\<close>

definition cleanNodeName :: "string \<Rightarrow> string" where
  \<comment> \<open>\<open>extractPartByName\<close>: \<open>name.split("-")[0].toLowerCase().trim()\<close>\<close>
  "cleanNodeName n = trim (toLowerCase (splitHead n))"

definition clean :: "string \<Rightarrow> string" where
  \<comment> \<open>\<open>getTopLevelNodes\<close>: \<open>name.split("-")[0].trim().toLowerCase()\<close>\<close>
  "clean n = toLowerCase (trim (splitHead n))"

definition childBase :: "string \<Rightarrow> string" where
  \<comment> \<open>\<open>findNodeByBaseName\<close>: \<open>child.name.split("-")[0].toLowerCase()\<close>\<close>
  "childBase n = toLowerCase (splitHead n)"

definition clickPartName :: "string \<Rightarrow> string option" where
  \<comment> \<open>\<open>handleClick\<close>: \<open>sel.name ? sel.name.split("-")[0].trim() : null\<close>\<close>
  "clickPartName n = (if n \<noteq> [] then Some (trim (splitHead n)) else None)"

section \<open>Scene graph, materials and the object store\<close>

text \<open>
  An object of the scene graph is a tree value: its identity, its name, whether it is a
  mesh, and its children in order. The fields the program assigns (the material and the
  geometry of a mesh, the position and the parent of an object, the children of a scene)
  live in a store keyed by object identity, and material and geometry objects live in
  heaps keyed by reference, so that sharing and cloning are visible.
\<close>

datatype obj3d = Obj3D (oid: nat) (name: string) (isMesh: bool) (children: "obj3d list")

text \<open>\<open>Object3D.traverse\<close> calls back on the object, then on each child's subtree in order.\<close>

fun traverse :: "obj3d \<Rightarrow> obj3d list" where
  "traverse (Obj3D i n m cs) = Obj3D i n m cs # concat (map traverse cs)"

datatype material = Material (color: nat) (emissive: nat) (emissiveIntensity: real)
  (roughness: real) (metalness: real) (transparent: bool) (opacity: real)

text \<open>The value of \<open>mesh.material\<close>: one material or an array of materials.\<close>

datatype matslot = Single nat | Multi "nat list"

type_synonym geometry = "vec3 list"

type_synonym store = "(obj3d \<times> matslot) list"

record world =
  material :: "nat \<rightharpoonup> matslot"
  geometry :: "nat \<rightharpoonup> nat"
  position :: "nat \<Rightarrow> vec3"
  parent :: "nat \<rightharpoonup> nat"
  childrenOf :: "nat \<Rightarrow> obj3d list"
  matHeap :: "nat \<rightharpoonup> material"
  geoHeap :: "nat \<rightharpoonup> geometry"
  nextMaterial :: nat
  nextGeometry :: nat
  nextObject :: nat
  disposedMaterials :: "nat set"
  disposedGeometries :: "nat set"

text \<open>\<open>Material.clone()\<close>: a new material object with the properties of the old one.\<close>

definition cloneMaterial :: "nat \<Rightarrow> world \<Rightarrow> nat \<times> world" where
  "cloneMaterial r w =
     (nextMaterial w,
      w\<lparr>matHeap := (matHeap w)(nextMaterial w := matHeap w r),
        nextMaterial := Suc (nextMaterial w)\<rparr>)"

fun cloneMaterials :: "nat list \<Rightarrow> world \<Rightarrow> nat list \<times> world" where
  "cloneMaterials [] w = ([], w)"
| "cloneMaterials (r # rs) w =
     (case cloneMaterial r w of (c, w1) \<Rightarrow>
        (case cloneMaterials rs w1 of (cs, w2) \<Rightarrow> (c # cs, w2)))"

text \<open>
  \<open>Array.isArray(m) ? m.map((x) => x.clone()) : m.clone()\<close>, the expression the source
  uses for every copy of a material slot.
\<close>

fun cloneSlot :: "matslot \<Rightarrow> world \<Rightarrow> matslot \<times> world" where
  "cloneSlot (Single r) w = (case cloneMaterial r w of (c, w1) \<Rightarrow> (Single c, w1))"
| "cloneSlot (Multi rs) w = (case cloneMaterials rs w of (cs, w1) \<Rightarrow> (Multi cs, w1))"

definition cloneGeometry :: "nat \<Rightarrow> world \<Rightarrow> nat \<times> world" where
  "cloneGeometry r w =
     (nextGeometry w,
      w\<lparr>geoHeap := (geoHeap w)(nextGeometry w := geoHeap w r),
        nextGeometry := Suc (nextGeometry w)\<rparr>)"

subsection \<open>collectOriginalMaterials, resetModelColor, highlightPart\<close>

definition collectStep :: "obj3d \<Rightarrow> store \<times> world \<Rightarrow> store \<times> world" where
  "collectStep child sw =
     (case sw of (originalMaterials, w) \<Rightarrow>
        if isMesh child then
          (case material w (oid child) of
             None \<Rightarrow> (originalMaterials, w)
           | Some m \<Rightarrow>
               (case cloneSlot m w of (clone, w1) \<Rightarrow>
                  (AList.update child clone originalMaterials, w1)))
        else (originalMaterials, w))"

definition collectOriginalMaterials :: "obj3d \<Rightarrow> store \<Rightarrow> world \<Rightarrow> store \<times> world" where
  "collectOriginalMaterials model originalMaterials w =
     fold collectStep (traverse model) (originalMaterials, w)"

definition resetStep :: "obj3d \<times> matslot \<Rightarrow> world \<Rightarrow> world" where
  "resetStep e w =
     (case e of (mesh, originalMaterial) \<Rightarrow>
        if \<not> isMesh mesh then w
        else (case cloneSlot originalMaterial w of (clone, w1) \<Rightarrow>
                w1\<lparr>material := (material w1)(oid mesh \<mapsto> clone)\<rparr>))"

definition resetModelColor :: "store \<Rightarrow> world \<Rightarrow> world" where
  "resetModelColor originalMaterials w = fold resetStep originalMaterials w"

definition highlightMaterial :: material where
  "highlightMaterial = Material 0xff8c00 0xff8c00 (15/100) (45/100) (5/100) True (95/100)"

definition newMaterial :: "material \<Rightarrow> world \<Rightarrow> nat \<times> world" where
  "newMaterial m w =
     (nextMaterial w,
      w\<lparr>matHeap := (matHeap w)(nextMaterial w \<mapsto> m), nextMaterial := Suc (nextMaterial w)\<rparr>)"

definition applyHighlight :: "nat \<Rightarrow> obj3d \<Rightarrow> world \<Rightarrow> world" where
  "applyHighlight baseMat m w =
     (case cloneMaterial baseMat w of (clone, w1) \<Rightarrow>
        w1\<lparr>material := (material w1)(oid m \<mapsto> Single clone)\<rparr>)"

text \<open>\<open>highlightPart\<close> on an array of meshes (a single mesh is the one-element array).\<close>

definition highlightPart :: "obj3d list \<Rightarrow> world \<Rightarrow> world" where
  "highlightPart meshes w =
     (case newMaterial highlightMaterial w of (baseMat, w1) \<Rightarrow>
        fold (applyHighlight baseMat) meshes w1)"

subsection \<open>The render and asset backends\<close>

text \<open>
  The camera keeps its vertical field of view in degrees, its position and the point it
  was last turned to (\<open>camera.lookAt\<close>); the orbit controls keep their target. An
  intersection is the object hit together with its chain of parents
  (\<open>object.parent\<close>, \<open>object.parent.parent\<close>, and so on up to the object that has none).
\<close>

datatype camera = Camera (fov: jsnum) (cameraPosition: vec3) (lookedAt: "vec3 option")

datatype controls = Controls (target: vec3)

datatype intersection = Intersection (object: obj3d) (parents: "obj3d list")

datatype rect = Rect (left: jsnum) (top: jsnum) (width: jsnum) (height: jsnum)

text \<open>
  What the program takes from three.js as a black box: the world-space bounding box of an
  object (\<open>Box3.setFromObject\<close>), the recursive ray intersection sorted by distance
  (\<open>Raycaster.intersectObject(mesh, true)\<close>, for the ray set from the mouse and the camera),
  \<open>OrbitControls.update()\<close>, and the outcome of \<open>GLTFLoader.loadAsync(url)\<close>: the scene of
  the asset or the error it rejects with.
\<close>

record backend =
  setFromObject :: "world \<Rightarrow> obj3d \<Rightarrow> box3"
  intersectObject :: "(jsnum \<times> jsnum) \<Rightarrow> camera \<Rightarrow> world \<Rightarrow> obj3d \<Rightarrow> intersection list"
  controlsUpdate :: "camera \<Rightarrow> controls \<Rightarrow> camera \<times> controls"
  loadAsync :: "string \<Rightarrow> string + obj3d"

record interactive =
  scene :: nat
  camera :: camera
  controls :: controls
  mesh :: "obj3d option"
  mouse :: "jsnum \<times> jsnum"
  raycaster :: "((jsnum \<times> jsnum) \<times> camera) option"
  originalMaterials :: store

subsection \<open>Scene membership and disposal\<close>

text \<open>
  \<open>parent\<close> and \<open>childrenOf\<close> hold the links between a scene and the roots added to it;
  inside a loaded model the links are those of the tree value. \<open>Object3D.remove\<close> detaches
  a child that is present; \<open>Object3D.add\<close> first takes the object away from its parent.
\<close>

definition sceneRemove :: "nat \<Rightarrow> obj3d \<Rightarrow> world \<Rightarrow> world" where
  "sceneRemove s obj w =
     (if obj \<in> set (childrenOf w s)
      then w\<lparr>parent := (parent w)(oid obj := None),
             childrenOf := (childrenOf w)(s := remove1 obj (childrenOf w s))\<rparr>
      else w)"

definition sceneAdd :: "nat \<Rightarrow> obj3d \<Rightarrow> world \<Rightarrow> world" where
  "sceneAdd s obj w =
     (let w1 = (case parent w (oid obj) of None \<Rightarrow> w | Some p \<Rightarrow> sceneRemove p obj w)
      in w1\<lparr>parent := (parent w1)(oid obj \<mapsto> s),
            childrenOf := (childrenOf w1)(s := childrenOf w1 s @ [obj])\<rparr>)"

fun slotRefs :: "matslot \<Rightarrow> nat list" where
  "slotRefs (Single r) = [r]"
| "slotRefs (Multi rs) = rs"

text \<open>
  \<open>disposeObject\<close>: the textures a material owns are not modelled; disposing a material
  or a geometry records its reference as disposed.
\<close>

definition disposeStep :: "obj3d \<Rightarrow> world \<Rightarrow> world" where
  "disposeStep child w =
     (if isMesh child then
        (let w1 = (case geometry w (oid child) of
                     None \<Rightarrow> w
                   | Some g \<Rightarrow> w\<lparr>disposedGeometries := insert g (disposedGeometries w)\<rparr>)
         in case material w1 (oid child) of
              None \<Rightarrow> w1
            | Some m \<Rightarrow>
                w1\<lparr>disposedMaterials := set (slotRefs m) \<union> disposedMaterials w1,
                   material := (material w1)(oid child \<mapsto> Multi [])\<rparr>)
      else w)"

definition disposeObject :: "obj3d \<Rightarrow> world \<Rightarrow> world" where
  "disposeObject obj w =
     (let w1 = fold disposeStep (traverse obj) w
      in case parent w1 (oid obj) of None \<Rightarrow> w1 | Some p \<Rightarrow> sceneRemove p obj w1)"

subsection \<open>normalizeModelSizeAndPosition\<close>

definition normalizeModelSizeAndPosition :: "backend \<Rightarrow> obj3d \<Rightarrow> jsnum \<Rightarrow> world \<Rightarrow> world" where
  "normalizeModelSizeAndPosition B m floatingY w =
     (let box = setFromObject B w m;
          size = getSize box;
          center = getCenter box
      in if \<not> isFinite (vx size) \<or> \<not> isFinite (vy size) \<or> \<not> isFinite (vz size) then w
         else
           (let p = v_sub (position w (oid m)) center;
                p1 = Vec3 (vx p) (js_add (js_add (vy p) (js_div (vy size) (Fin 2))) floatingY) (vz p)
            in w\<lparr>position := (position w)(oid m := p1)\<rparr>))"

subsection \<open>extractPartByName\<close>

text \<open>
  \<open>Object3D.clone(true)\<close>: a new object for the node and for each descendant, with the
  name and the position copied and, for a mesh, the same geometry and material references;
  the clone has no parent.
\<close>

fun cloneObj :: "obj3d \<Rightarrow> world \<Rightarrow> obj3d \<times> world"
  and cloneObjs :: "obj3d list \<Rightarrow> world \<Rightarrow> obj3d list \<times> world" where
  "cloneObj (Obj3D i n m cs) w =
     (let j = nextObject w;
          w1 = w\<lparr>nextObject := Suc j,
                 position := (position w)(j := position w i),
                 material := (material w)(j := material w i),
                 geometry := (geometry w)(j := geometry w i),
                 parent := (parent w)(j := None)\<rparr>
      in case cloneObjs cs w1 of (cs1, w2) \<Rightarrow> (Obj3D j n m cs1, w2))"
| "cloneObjs [] w = ([], w)"
| "cloneObjs (c # cs) w =
     (case cloneObj c w of (c1, w1) \<Rightarrow>
        (case cloneObjs cs w1 of (cs1, w2) \<Rightarrow> (c1 # cs1, w2)))"

definition cloneMeshData :: "obj3d \<Rightarrow> world \<Rightarrow> world" where
  "cloneMeshData c w =
     (if isMesh c then
        (let w1 = (case geometry w (oid c) of
                     None \<Rightarrow> w
                   | Some g \<Rightarrow> (case cloneGeometry g w of (g1, wg) \<Rightarrow>
                                 wg\<lparr>geometry := (geometry wg)(oid c \<mapsto> g1)\<rparr>))
         in case material w1 (oid c) of
              None \<Rightarrow> w1
            | Some m \<Rightarrow> (case cloneSlot m w1 of (m1, wm) \<Rightarrow>
                          wm\<lparr>material := (material wm)(oid c \<mapsto> m1)\<rparr>))
      else w)"

definition extractStep :: "string \<Rightarrow> obj3d \<Rightarrow> obj3d option \<times> world \<Rightarrow> obj3d option \<times> world" where
  "extractStep cleanedTarget child tw =
     (case tw of (targetObject, w) \<Rightarrow>
        if name child = [] then (targetObject, w)
        else if cleanNodeName (name child) = cleanedTarget then
          (case cloneObj child w of (c, w1) \<Rightarrow> (Some c, fold cloneMeshData (traverse c) w1))
        else (targetObject, w))"

definition extractPartByName :: "backend \<Rightarrow> obj3d \<Rightarrow> string \<Rightarrow> world \<Rightarrow> obj3d option \<times> world" where
  "extractPartByName B model partName w =
     (let cleanedTarget = trim (toLowerCase partName)
      in case fold (extractStep cleanedTarget) (traverse model) (None, w) of
           (None, w1) \<Rightarrow> (None, w1)
         | (Some t, w1) \<Rightarrow> (Some t, normalizeModelSizeAndPosition B t (Fin 0) w1))"

subsection \<open>getTopLevelNodes and findNodeByBaseName\<close>

text \<open>\<open>Set.add\<close> on a set kept in insertion order, as \<open>Array.from\<close> returns it.\<close>

definition setAdd :: "string \<Rightarrow> string list \<Rightarrow> string list" where
  "setAdd c ns = (if c \<in> set ns then ns else ns @ [c])"

definition topLevelStep :: "obj3d \<Rightarrow> string list \<Rightarrow> string list" where
  "topLevelStep child nodesSet =
     (if name child = [] then nodesSet
      else (let c = clean (name child)
            in if c \<noteq> [] \<and> c \<noteq> ''default'' \<and> c \<noteq> ''scene'' then setAdd c nodesSet
               else nodesSet))"

definition getTopLevelNodes :: "backend \<Rightarrow> string \<Rightarrow> string list" where
  "getTopLevelNodes B url =
     (case loadAsync B url of
        Inl err \<Rightarrow> []
      | Inr model \<Rightarrow>
          (let nodesSet = fold topLevelStep (traverse model) []
           in if nodesSet = [] \<and> name model \<noteq> [] then setAdd (clean (name model)) nodesSet
              else nodesSet))"

definition findStep :: "string \<Rightarrow> obj3d \<Rightarrow> obj3d option \<Rightarrow> obj3d option" where
  "findStep targetBase child found =
     (if found = None \<and> name child \<noteq> [] then
        (if childBase (name child) = targetBase then Some child else found)
      else found)"

definition findNodeByBaseName :: "obj3d \<Rightarrow> string \<Rightarrow> obj3d option" where
  "findNodeByBaseName r baseName = fold (findStep (toLowerCase baseName)) (traverse r) None"

subsection \<open>getIntersects and fitCameraToObject\<close>

definition getIntersects ::
  "backend \<Rightarrow> jsnum \<Rightarrow> jsnum \<Rightarrow> rect \<Rightarrow> interactive \<Rightarrow> world \<Rightarrow> interactive \<times> intersection option" where
  "getIntersects B clientX clientY r sc w =
     (if js_eq (width r) (Fin 0) \<or> js_eq (height r) (Fin 0) then (sc, None)
      else
        (let mx = js_sub (js_mul (js_div (js_sub clientX (left r)) (width r)) (Fin 2)) (Fin 1);
             my = js_add (js_mul (js_neg (js_div (js_sub clientY (top r)) (height r))) (Fin 2)) (Fin 1);
             sc1 = sc\<lparr>mouse := (mx, my), raycaster := Some ((mx, my), camera sc)\<rparr>
         in case mesh sc1 of
              None \<Rightarrow> (sc1, None)
            | Some m \<Rightarrow>
                (case intersectObject B (mx, my) (camera sc1) w m of
                   [] \<Rightarrow> (sc1, None)
                 | i # _ \<Rightarrow> (sc1, Some i))))"

definition SAFE_DIM :: jsnum where
  "SAFE_DIM = Fin 200"

text \<open>
  The local values of \<open>fitCameraToObject\<close>, one definition each: \<open>effectiveDim\<close>;
  \<open>cameraZ\<close> after its multiplication by 1.3; and \<open>originalPos\<close> before it is
  normalised, which is the offset of the camera from the controls' target, or
  (1, 0.6, 1) when the squared length of that offset is below 0.01. The orbit controls of
  the model always have a target, so the alternative of
  \<open>controls.target || new THREE.Vector3()\<close> is never taken.
\<close>

definition effectiveDim :: "jsnum \<Rightarrow> jsnum" where
  "effectiveDim maxDim = (if js_gt maxDim (Fin (1/100)) then maxDim else SAFE_DIM)"

definition cameraZ :: "jsnum \<Rightarrow> jsnum \<Rightarrow> jsnum" where
  "cameraZ effDim fovDeg =
     (let fovr = js_mul fovDeg (js_div (Fin pi) (Fin 180))
      in js_mul (js_abs (js_div (js_div effDim (Fin 2)) (js_tan (js_div fovr (Fin 2))))) (Fin (13/10)))"

definition originalPos :: "camera \<Rightarrow> controls \<Rightarrow> vec3" where
  "originalPos cam ctl =
     (let d = v_sub (cameraPosition cam) (target ctl)
      in if js_lt (lengthSq d) (Fin (1/100)) then Vec3 (Fin 1) (Fin (6/10)) (Fin 1) else d)"

text \<open>
  The pose \<open>fitCameraToObject\<close> writes for a bounding box, before it hands over to
  \<open>controls.update()\<close>.
\<close>

definition framePose :: "box3 \<Rightarrow> camera \<Rightarrow> controls \<Rightarrow> camera \<times> controls" where
  "framePose box cam ctl =
     (let size = getSize box;
          center = getCenter box;
          maxDim = js_max3 (vx size) (vy size) (vz size);
          offset = multiplyScalar (normalize (originalPos cam ctl))
                     (js_mul (cameraZ (effectiveDim maxDim) (fov cam)) (Fin (3/2)))
      in (Camera (fov cam) (v_add center offset) (Some center), Controls center))"

definition fitCameraToObject :: "backend \<Rightarrow> world \<Rightarrow> camera \<Rightarrow> controls \<Rightarrow> obj3d \<Rightarrow> camera \<times> controls" where
  "fitCameraToObject B w cam ctl obj =
     (case framePose (setFromObject B w obj) cam ctl of
        (cam1, ctl1) \<Rightarrow> controlsUpdate B cam1 ctl1)"

section \<open>The View3D component\<close>

text \<open>
  Every run of the set-up effect builds its own scene, camera, controls and snapshot store
  (\<open>interactive\<close>) and its own closure variable \<open>addedObject\<close>; \<open>sceneRef\<close> names the run
  whose \<open>interactive\<close> is \<open>sceneRef.current\<close>. The flags and the selection are the state
  of the component, shared by all runs. The three callbacks of the props are recorded as
  logs of their arguments. Rendering, the canvas and the event listeners are not modelled.
\<close>

record run =
  inter :: interactive
  addedObject :: "obj3d option"
  released :: bool

record view3d =
  theWorld :: world
  runs :: "run list"
  sceneRef :: "nat option"
  isModelLoaded :: bool
  loadProgress :: int
  currentSelectedPart :: "string option"
  isLoadingPart :: bool
  onPartSelected :: "string option list"
  onModelLoaded :: "obj3d list"
  onModelError :: "string list"

text \<open>
  \<open>setupScene\<close> and \<open>setupInteraction\<close>: a new scene with its ambient light and its two
  directional lights, a camera of 45 degrees at (200, 150, 200), orbit controls with the
  origin as target, and an empty snapshot store.
\<close>

definition setupScene :: "world \<Rightarrow> interactive \<times> world" where
  "setupScene w =
     (let s = nextObject w;
          w1 = w\<lparr>nextObject := s + 4\<rparr>;
          w2 = sceneAdd s (Obj3D (s + 1) [] False []) w1;
          w3 = sceneAdd s (Obj3D (s + 2) [] False []) w2;
          w4 = sceneAdd s (Obj3D (s + 3) [] False []) w3
      in (\<lparr>scene = s,
           camera = Camera (Fin 45) (Vec3 (Fin 200) (Fin 150) (Fin 200)) None,
           controls = Controls zero3,
           mesh = None,
           mouse = (Fin 0, Fin 0),
           raycaster = None,
           originalMaterials = []\<rparr>, w4))"

definition updRun :: "nat \<Rightarrow> (run \<Rightarrow> run) \<Rightarrow> view3d \<Rightarrow> view3d" where
  "updRun k f v = (if k < length (runs v) then v\<lparr>runs := (runs v)[k := f (runs v ! k)]\<rparr> else v)"

definition meshesOf :: "obj3d \<Rightarrow> obj3d list" where
  "meshesOf obj = filter isMesh (traverse obj)"

text \<open>
  The second half of \<open>load\<close>, from \<open>if (objToAdd)\<close> on, for the run \<open>k\<close>: a model the run
  added before is restored, removed and disposed; the new object is added to the run's
  scene and becomes its \<open>mesh\<close>; an isolated part is highlighted; the camera is fitted.
\<close>

definition attach :: "backend \<Rightarrow> nat \<Rightarrow> bool \<Rightarrow> obj3d \<Rightarrow> view3d \<Rightarrow> view3d" where
  "attach B k isolated objToAdd v =
     (if k < length (runs v) then
        (let r = runs v ! k;
             i = inter r;
             w = theWorld v;
             w1 = (case addedObject r of
                     None \<Rightarrow> w
                   | Some a \<Rightarrow>
                       disposeObject a (sceneRemove (scene i) a (resetModelColor (originalMaterials i) w)));
             w2 = sceneAdd (scene i) objToAdd w1;
             i2 = i\<lparr>mesh := Some objToAdd\<rparr>;
             (st3, w3) = (if isolated then
                            (case collectOriginalMaterials objToAdd (originalMaterials i2) w2 of
                               (st, wc) \<Rightarrow>
                                 (st, if meshesOf objToAdd \<noteq> [] then highlightPart (meshesOf objToAdd) wc
                                      else wc))
                          else (originalMaterials i2, w2));
             i3 = i2\<lparr>originalMaterials := st3\<rparr>;
             (cam, ctl) = fitCameraToObject B w3 (camera i3) (controls i3) objToAdd;
             i4 = i3\<lparr>camera := cam, controls := ctl\<rparr>
         in v\<lparr>theWorld := w3,
              runs := (runs v)[k := r\<lparr>inter := i4, addedObject := Some objToAdd\<rparr>]\<rparr>)
      else v)"

text \<open>The branch of \<open>load\<close> for an isolated part: it has no \<open>await\<close> and runs at once.\<close>

definition loadIsolated :: "backend \<Rightarrow> nat \<Rightarrow> obj3d \<Rightarrow> view3d \<Rightarrow> view3d" where
  "loadIsolated B k isolatedPart v =
     (if k < length (runs v) then
        (let i = inter (runs v ! k);
             w1 = normalizeModelSizeAndPosition B isolatedPart (Fin 4) (theWorld v);
             (st, w2) = collectOriginalMaterials isolatedPart (originalMaterials i) w1;
             v1 = updRun k (\<lambda>r. r\<lparr>inter := (inter r)\<lparr>originalMaterials := st\<rparr>\<rparr>)
                    (v\<lparr>theWorld := w2, isModelLoaded := True,
                       onModelLoaded := onModelLoaded v @ [isolatedPart]\<rparr>);
             v2 = attach B k True isolatedPart v1
         in v2\<lparr>isLoadingPart := False\<rparr>)
      else v)"

text \<open>
  The continuation of \<open>load\<close> after \<open>await loadGLB(modelUrl, ...)\<close> for the run \<open>k\<close>, given
  the outcome of the load. Nothing between the \<open>await\<close> and the end of \<open>load\<close> looks at
  whether the run has been cleaned up meanwhile.
\<close>

definition loadResolved :: "backend \<Rightarrow> nat \<Rightarrow> string + obj3d \<Rightarrow> view3d \<Rightarrow> view3d" where
  "loadResolved B k outcome v =
     (if k < length (runs v) then
        (case outcome of
           Inl err \<Rightarrow> v\<lparr>onModelError := onModelError v @ [err], isLoadingPart := False\<rparr>
         | Inr gltfGroup \<Rightarrow>
             (let i = inter (runs v ! k);
                  w1 = normalizeModelSizeAndPosition B gltfGroup (Fin 4) (theWorld v);
                  (st, w2) = collectOriginalMaterials gltfGroup (originalMaterials i) w1;
                  v1 = updRun k (\<lambda>r. r\<lparr>inter := (inter r)\<lparr>originalMaterials := st\<rparr>\<rparr>)
                         (v\<lparr>theWorld := w2, onModelLoaded := onModelLoaded v @ [gltfGroup],
                            isModelLoaded := True\<rparr>);
                  v2 = attach B k False gltfGroup v1
              in v2\<lparr>isLoadingPart := False\<rparr>))
      else v)"

text \<open>
  The body of the set-up effect: it builds the scene of a new run, stores it in
  \<open>sceneRef\<close> and starts \<open>load\<close>, which completes at once for an isolated part and
  otherwise stays pending until \<open>loadResolved\<close>.
\<close>

definition effectRun :: "backend \<Rightarrow> obj3d option \<Rightarrow> view3d \<Rightarrow> view3d" where
  "effectRun B isolatedPart v =
     (case setupScene (theWorld v) of (i, w1) \<Rightarrow>
        (let k = length (runs v);
             v1 = v\<lparr>theWorld := w1,
                    runs := runs v @ [\<lparr>inter = i, addedObject = None, released = False\<rparr>],
                    sceneRef := Some k\<rparr>;
             v2 = v1\<lparr>isLoadingPart := True, loadProgress := 0\<rparr>
         in case isolatedPart of None \<Rightarrow> v2 | Some p \<Rightarrow> loadIsolated B k p v2))"

text \<open>The clean-up the effect of run \<open>k\<close> returns.\<close>

definition cleanup :: "nat \<Rightarrow> view3d \<Rightarrow> view3d" where
  "cleanup k v =
     (if k < length (runs v) then
        (let r = runs v ! k;
             i = inter r;
             w = theWorld v;
             (w1, i1) = (case addedObject r of
                           None \<Rightarrow> (w, i)
                         | Some a \<Rightarrow>
                             (disposeObject a (sceneRemove (scene i) a (resetModelColor (originalMaterials i) w)),
                              i\<lparr>mesh := None\<rparr>));
             i2 = i1\<lparr>originalMaterials := []\<rparr>
         in v\<lparr>theWorld := w1,
              runs := (runs v)[k := \<lparr>inter = i2, addedObject = None, released = True\<rparr>],
              sceneRef := None\<rparr>)
      else v)"

subsection \<open>handleClick\<close>




section \<open>What a snapshot looks like\<close>

text \<open>
  The appearance of a material slot is the properties of the material objects it refers
  to, with its shape (one material or an array). A slot is allocated when each of its
  references lies below the next free one. One world extends the heap of another when
  it has kept every material object the other had.
\<close>

datatype slotval = One "material option" | Many "material option list"

fun appearance :: "world \<Rightarrow> matslot \<Rightarrow> slotval" where
  "appearance w (Single r) = One (matHeap w r)"
| "appearance w (Multi rs) = Many (map (matHeap w) rs)"

definition allocated :: "world \<Rightarrow> matslot \<Rightarrow> bool" where
  "allocated w s = list_all (\<lambda>r. r < nextMaterial w) (slotRefs s)"

definition heapExt :: "world \<Rightarrow> world \<Rightarrow> bool" where
  "heapExt w w' = (nextMaterial w \<le> nextMaterial w' \<and> (\<forall>r<nextMaterial w. matHeap w' r = matHeap w r))"

section \<open>Example inputs\<close>

text \<open>
  An assembly of two bracket meshes, the first with one material and the second with an
  array of two; backends that answer a fixed bounding box, hit nothing, leave the pose
  alone on \<open>controls.update()\<close> and load a given model; a backend whose ray hits the
  first bracket in the left half of the viewport and nothing in the right half; the camera
  and the controls as \<open>setupScene\<close> creates them; and the runs of the component the
  theorems below evaluate.
\<close>

definition steel :: material where
  "steel = Material 0x808080 0 1 (1/2) 1 False 1"

definition exMesh1 :: obj3d where "exMesh1 = Obj3D 1 ''Bracket-01'' True []"
definition exMesh2 :: obj3d where "exMesh2 = Obj3D 2 ''bracket-02'' True []"
definition exModel :: obj3d where "exModel = Obj3D 0 ''Assembly'' False [exMesh1, exMesh2]"

definition exWorld :: world where
  "exWorld = \<lparr>material = [1 \<mapsto> Single 0, 2 \<mapsto> Multi [1, 2]], geometry = [1 \<mapsto> 0, 2 \<mapsto> 0],
     position = (\<lambda>_. zero3), parent = Map.empty,
     childrenOf = (\<lambda>_. []), matHeap = [0 \<mapsto> steel, 1 \<mapsto> steel, 2 \<mapsto> Material 1 2 0 0 0 True (1/2)],
     geoHeap = [0 \<mapsto> []], nextMaterial = 3,
     nextGeometry = 1, nextObject = 100, disposedMaterials = {}, disposedGeometries = {}\<rparr>"

definition exFirst :: "store \<times> world" where
  "exFirst = collectOriginalMaterials exModel [] exWorld"

definition exSecond :: "store \<times> world" where
  "exSecond = collectOriginalMaterials exModel (fst exFirst) (highlightPart [exMesh1] (snd exFirst))"

definition exHighlights :: "obj3d list list" where
  "exHighlights = [[exMesh1], [exMesh1, exMesh2]]"

definition exBackend :: "box3 \<Rightarrow> backend" where
  "exBackend box = \<lparr>setFromObject = (\<lambda>w obj. box), intersectObject = (\<lambda>m c w obj. []),
     controlsUpdate = (\<lambda>c t. (c, t)), loadAsync = (\<lambda>u. Inr exModel)\<rparr>"

definition unitBox :: box3 where
  "unitBox = Box3 zero3 (Vec3 (Fin 1) (Fin 1) (Fin 1))"

definition initialView :: "world \<Rightarrow> view3d" where
  "initialView w = \<lparr>theWorld = w, runs = [], sceneRef = None, isModelLoaded = False, loadProgress = 0,
     currentSelectedPart = None, isLoadingPart = True, onPartSelected = [], onModelLoaded = [],
     onModelError = []\<rparr>"

definition exStale :: view3d where
  "exStale = loadResolved (exBackend unitBox) 0 (Inr exModel)
     (effectRun (exBackend unitBox) None (cleanup 0 (effectRun (exBackend unitBox) None (initialView exWorld))))"

definition nanBox :: box3 where "nanBox = Box3 (Vec3 NaN NaN NaN) (Vec3 NaN NaN NaN)"
definition tinyBox :: box3 where
  "tinyBox = Box3 zero3 (Vec3 (Fin (1/200)) (Fin (1/200)) (Fin (1/200)))"
definition exCamera :: camera where
  "exCamera = Camera (Fin 45) (Vec3 (Fin 200) (Fin 150) (Fin 200)) None"
definition exControls :: controls where "exControls = Controls zero3"
definition exRect :: rect where "exRect = Rect (Fin 0) (Fin 0) (Fin 100) (Fin 100)"
definition sceneOnly :: obj3d where
  "sceneOnly = Obj3D 0 ''Scene'' False [Obj3D 1 [] True []]"
definition exLoader :: "obj3d \<Rightarrow> backend" where
  "exLoader model = \<lparr>setFromObject = (\<lambda>w obj. unitBox), intersectObject = (\<lambda>m c w obj. []),
     controlsUpdate = (\<lambda>c t. (c, t)), loadAsync = (\<lambda>u. Inr model)\<rparr>"



definition exNanLoaded :: view3d where
  "exNanLoaded = loadResolved (exBackend nanBox) 0 (Inr exModel)
     (effectRun (exBackend nanBox) None (initialView exWorld))"



section \<open>Lemmas on heaps, snapshots and framing\<close>

lemmas ex_defs = exMesh1_def exMesh2_def exModel_def exWorld_def exFirst_def exSecond_def steel_def
  collectOriginalMaterials_def collectStep_def cloneMaterial_def highlightPart_def newMaterial_def
  applyHighlight_def highlightMaterial_def resetModelColor_def resetStep_def allocated_def

lemmas run_defs = exStale_def exBackend_def unitBox_def initialView_def loadResolved_def effectRun_def cleanup_def
  setupScene_def sceneAdd_def sceneRemove_def updRun_def attach_def normalizeModelSizeAndPosition_def
  getSize_def getCenter_def isEmpty_def zero3_def js_lt_def js_sub_def fitCameraToObject_def
  disposeObject_def disposeStep_def



lemmas frame_defs = exBackend_def nanBox_def tinyBox_def unitBox_def exCamera_def exControls_def
  zero3_def getSize_def getCenter_def isEmpty_def js_lt_def js_sub_def js_max3_def

lemma heapExt_refl: "heapExt w w"
  by (simp add: heapExt_def)

lemma heapExt_trans: "heapExt a b \<Longrightarrow> heapExt b c \<Longrightarrow> heapExt a c"
  by (auto simp: heapExt_def)

lemma allocated_mono: "allocated w s \<Longrightarrow> heapExt w w' \<Longrightarrow> allocated w' s"
  by (auto simp: allocated_def heapExt_def list_all_iff)

lemma appearance_ext: "allocated w s \<Longrightarrow> heapExt w w' \<Longrightarrow> appearance w' s = appearance w s"
  by (cases s) (auto simp: allocated_def heapExt_def list_all_iff)

lemma cloneMaterial_eq:
  "cloneMaterial r w = (nextMaterial w,
      w\<lparr>matHeap := (matHeap w)(nextMaterial w := matHeap w r), nextMaterial := Suc (nextMaterial w)\<rparr>)"
  by (simp add: cloneMaterial_def)

lemma cloneMaterials_props:
  "cloneMaterials rs w = (cs, w') \<Longrightarrow>
     material w' = material w \<and> heapExt w w'
     \<and> (\<forall>c\<in>set cs. nextMaterial w \<le> c \<and> c < nextMaterial w')
     \<and> ((\<forall>r\<in>set rs. r < nextMaterial w) \<longrightarrow> map (matHeap w') cs = map (matHeap w) rs)"
proof (induction rs arbitrary: w cs w')
  case Nil
  then show ?case by (simp add: heapExt_refl)
next
  case (Cons r rs)
  define w1 where "w1 = w\<lparr>matHeap := (matHeap w)(nextMaterial w := matHeap w r), nextMaterial := Suc (nextMaterial w)\<rparr>"
  obtain cs1 w2 where r: "cloneMaterials rs w1 = (cs1, w2)" by (cases "cloneMaterials rs w1")
  from Cons.prems r have eq: "cs = nextMaterial w # cs1" "w' = w2"
    by (auto simp: cloneMaterial_def w1_def)
  note ih = Cons.IH[OF r]
  have e1: "heapExt w w1" by (simp add: heapExt_def w1_def)
  have n1: "nextMaterial w1 = Suc (nextMaterial w)" by (simp add: w1_def)
  have m1: "material w1 = material w" by (simp add: w1_def)
  have h1: "matHeap w1 (nextMaterial w) = matHeap w r" by (simp add: w1_def)
  have e2: "heapExt w1 w'" using ih eq by simp
  have c1: "material w' = material w" using ih m1 eq by simp
  have c2: "heapExt w w'" using e1 e2 by (rule heapExt_trans)
  have c3: "\<forall>c\<in>set cs. nextMaterial w \<le> c \<and> c < nextMaterial w'"
    using ih eq n1 e2 by (auto simp: heapExt_def)
  have c4: "map (matHeap w') cs = map (matHeap w) (r # rs)" if a: "\<forall>x\<in>set (r # rs). x < nextMaterial w"
  proof -
    have "\<forall>x\<in>set rs. x < nextMaterial w1" using a n1 by auto
    with ih eq have "map (matHeap w') cs1 = map (matHeap w1) rs" by simp
    also have "\<dots> = map (matHeap w) rs" using a e1 by (auto simp: heapExt_def)
    finally have t: "map (matHeap w') cs1 = map (matHeap w) rs" .
    have "matHeap w' (nextMaterial w) = matHeap w1 (nextMaterial w)"
      using e2 n1 by (simp add: heapExt_def)
    with h1 t eq show ?thesis by simp
  qed
  from c1 c2 c3 c4 show ?case by blast
qed

lemma cloneSlot_props:
  assumes "cloneSlot s w = (c, w')"
  shows "material w' = material w" and "heapExt w w'"
    and "\<forall>r\<in>set (slotRefs c). nextMaterial w \<le> r \<and> r < nextMaterial w'"
    and "allocated w s \<Longrightarrow> appearance w' c = appearance w s"
proof -
  have "material w' = material w \<and> heapExt w w'
     \<and> (\<forall>r\<in>set (slotRefs c). nextMaterial w \<le> r \<and> r < nextMaterial w')
     \<and> (allocated w s \<longrightarrow> appearance w' c = appearance w s)"
  proof (cases s)
    case (Single r)
    with assms show ?thesis
      by (auto simp: cloneMaterial_def heapExt_def allocated_def)
  next
    case (Multi rs)
    obtain cs w2 where r: "cloneMaterials rs w = (cs, w2)" by (cases "cloneMaterials rs w")
    with assms Multi have eq: "c = Multi cs" "w' = w2" by auto
    from cloneMaterials_props[OF r] eq Multi show ?thesis
      by (auto simp: allocated_def list_all_iff)
  qed
  then show "material w' = material w" and "heapExt w w'"
    and "\<forall>r\<in>set (slotRefs c). nextMaterial w \<le> r \<and> r < nextMaterial w'"
    and "allocated w s \<Longrightarrow> appearance w' c = appearance w s" by blast+
qed

lemma allocated_clone:
  "cloneSlot s w = (c, w') \<Longrightarrow> allocated w' c"
  using cloneSlot_props(3)[of s w c w'] by (auto simp: allocated_def list_all_iff)

lemma collect_fold:
  assumes "fold collectStep xs (st, w) = (st', w')"
  shows "material w' = material w \<and> heapExt w w'
    \<and> (\<forall>m. (m \<notin> set xs \<or> \<not> isMesh m \<or> material w (oid m) = None) \<longrightarrow> map_of st' m = map_of st m)
    \<and> (\<forall>m s. m \<in> set xs \<and> isMesh m \<and> material w (oid m) = Some s \<and> allocated w s \<longrightarrow>
          (\<exists>c. map_of st' m = Some c \<and> appearance w' c = appearance w s
             \<and> (\<forall>r\<in>set (slotRefs c). nextMaterial w \<le> r \<and> r < nextMaterial w')))"
  using assms
proof (induction xs arbitrary: st w)
  case Nil
  then show ?case by (simp add: heapExt_refl)
next
  case (Cons x xs)
  obtain st1 w1 where s1: "collectStep x (st, w) = (st1, w1)" by (cases "collectStep x (st, w)")
  with Cons.prems have r: "fold collectStep xs (st1, w1) = (st', w')" by simp
  note ih = Cons.IH[OF r]
  have step: "material w1 = material w \<and> heapExt w w1
     \<and> (\<forall>m. m \<noteq> x \<longrightarrow> map_of st1 m = map_of st m)
     \<and> ((\<not> isMesh x \<or> material w (oid x) = None) \<longrightarrow> st1 = st)
     \<and> (\<forall>s. isMesh x \<and> material w (oid x) = Some s \<and> allocated w s \<longrightarrow>
          (\<exists>c. map_of st1 x = Some c \<and> appearance w1 c = appearance w s \<and> allocated w1 c
             \<and> (\<forall>r\<in>set (slotRefs c). nextMaterial w \<le> r \<and> r < nextMaterial w1)))"
  proof (cases "isMesh x \<and> material w (oid x) \<noteq> None")
    case False
    with s1 show ?thesis by (auto simp: collectStep_def heapExt_refl split: if_splits)
  next
    case True
    then obtain s where s: "material w (oid x) = Some s" by auto
    obtain c w2 where c: "cloneSlot s w = (c, w2)" by (cases "cloneSlot s w")
    with s1 True s have eq: "st1 = AList.update x c st" "w1 = w2"
      by (auto simp: collectStep_def)
    from cloneSlot_props[OF c] allocated_clone[OF c] eq s True show ?thesis
      by (auto simp: update_conv')
  qed
  have e: "heapExt w w'" using step ih heapExt_trans by blast
  have m: "material w' = material w" using step ih by simp
  have p1: "map_of st' m = map_of st m"
    if "m \<notin> set (x # xs) \<or> \<not> isMesh m \<or> material w (oid m) = None" for m
  proof -
    from that step have "m \<notin> set xs \<or> \<not> isMesh m \<or> material w1 (oid m) = None" by auto
    with ih have "map_of st' m = map_of st1 m" by blast
    moreover have "map_of st1 m = map_of st m"
    proof (cases "m = x")
      case True
      with that step show ?thesis by auto
    next
      case False
      with step show ?thesis by blast
    qed
    ultimately show ?thesis by simp
  qed
  have p2: "\<exists>c. map_of st' m = Some c \<and> appearance w' c = appearance w s
             \<and> (\<forall>r\<in>set (slotRefs c). nextMaterial w \<le> r \<and> r < nextMaterial w')"
    if a: "m \<in> set (x # xs)" "isMesh m" "material w (oid m) = Some s" "allocated w s" for m s
  proof (cases "m \<in> set xs")
    case True
    have "allocated w1 s" using a step allocated_mono by blast
    with True a step ih obtain c where c: "map_of st' m = Some c" "appearance w' c = appearance w1 s"
      "\<forall>r\<in>set (slotRefs c). nextMaterial w1 \<le> r \<and> r < nextMaterial w'"
      by (metis (no_types, lifting))
    have "appearance w1 s = appearance w s" using a step appearance_ext by blast
    moreover have "nextMaterial w \<le> nextMaterial w1" using step by (simp add: heapExt_def)
    ultimately show ?thesis using c by fastforce
  next
    case False
    with a have mx: "m = x" by simp
    with a step obtain c where c: "map_of st1 x = Some c" "appearance w1 c = appearance w s"
      "allocated w1 c" "\<forall>r\<in>set (slotRefs c). nextMaterial w \<le> r \<and> r < nextMaterial w1"
      by blast
    from False ih mx have "map_of st' x = map_of st1 x" by blast
    moreover have "appearance w' c = appearance w1 c" using c ih appearance_ext by blast
    moreover have "nextMaterial w1 \<le> nextMaterial w'" using ih by (simp add: heapExt_def)
    ultimately show ?thesis using c mx by fastforce
  qed
  from e m p1 p2 show ?case by blast
qed


lemma cloneMaterials_frame:
  "cloneMaterials rs w = (cs, w') \<Longrightarrow> w' = w\<lparr>matHeap := matHeap w', nextMaterial := nextMaterial w'\<rparr>"
proof (induction rs arbitrary: w cs w')
  case Nil
  then show ?case by simp
next
  case (Cons r rs)
  define w1 where "w1 = w\<lparr>matHeap := (matHeap w)(nextMaterial w := matHeap w r), nextMaterial := Suc (nextMaterial w)\<rparr>"
  obtain cs1 w2 where r: "cloneMaterials rs w1 = (cs1, w2)" by (cases "cloneMaterials rs w1")
  from Cons.prems r have eq: "w' = w2" by (auto simp: cloneMaterial_def w1_def)
  from Cons.IH[OF r] have "w2 = w1\<lparr>matHeap := matHeap w2, nextMaterial := nextMaterial w2\<rparr>" .
  then have "w2 = w\<lparr>matHeap := matHeap w2, nextMaterial := nextMaterial w2\<rparr>"
    unfolding w1_def by simp
  with eq show ?case by simp
qed

lemma cloneSlot_frame:
  "cloneSlot s w = (c, w') \<Longrightarrow> w' = w\<lparr>matHeap := matHeap w', nextMaterial := nextMaterial w'\<rparr>"
proof (cases s)
  case (Single r)
  assume "cloneSlot s w = (c, w')"
  with Single show ?thesis by (auto simp: cloneMaterial_def)
next
  case (Multi rs)
  assume a: "cloneSlot s w = (c, w')"
  obtain cs w2 where r: "cloneMaterials rs w = (cs, w2)" by (cases "cloneMaterials rs w")
  with a Multi have "w' = w2" by auto
  with cloneMaterials_frame[OF r] show ?thesis by simp
qed

lemma collect_frame:
  "fold collectStep xs (st, w) = (st', w') \<Longrightarrow> w' = w\<lparr>matHeap := matHeap w', nextMaterial := nextMaterial w'\<rparr>"
proof (induction xs arbitrary: st w)
  case Nil
  then show ?case by simp
next
  case (Cons x xs)
  obtain st1 w1 where s1: "collectStep x (st, w) = (st1, w1)" by (cases "collectStep x (st, w)")
  with Cons.prems have r: "fold collectStep xs (st1, w1) = (st', w')" by simp
  have f1: "w1 = w\<lparr>matHeap := matHeap w1, nextMaterial := nextMaterial w1\<rparr>"
  proof (cases "isMesh x \<and> material w (oid x) \<noteq> None")
    case False
    with s1 have "w1 = w" by (auto simp: collectStep_def split: if_splits)
    then show ?thesis by simp
  next
    case True
    then obtain s where s: "material w (oid x) = Some s" by auto
    obtain c w2 where c: "cloneSlot s w = (c, w2)" by (cases "cloneSlot s w")
    with s1 True s have "w1 = w2" by (auto simp: collectStep_def)
    with cloneSlot_frame[OF c] show ?thesis by simp
  qed
  from Cons.IH[OF r] have "w' = w1\<lparr>matHeap := matHeap w', nextMaterial := nextMaterial w'\<rparr>" .
  then have "w' = (w\<lparr>matHeap := matHeap w1, nextMaterial := nextMaterial w1\<rparr>)\<lparr>matHeap := matHeap w', nextMaterial := nextMaterial w'\<rparr>"
    using f1 by simp
  then show ?case by simp
qed

lemma fold_heapExt:
  assumes "\<And>x w. heapExt w (f x w)"
  shows "heapExt w (fold f xs w)"
proof (induction xs arbitrary: w)
  case Nil
  show ?case by (simp add: heapExt_refl)
next
  case (Cons x xs)
  have "heapExt w (f x w)" by (rule assms)
  moreover have "heapExt (f x w) (fold f xs (f x w))" by (rule Cons.IH)
  ultimately show ?case using heapExt_trans by auto
qed

lemma applyHighlight_ext: "heapExt w (applyHighlight b m w)"
  by (simp add: applyHighlight_def cloneMaterial_def heapExt_def)

lemma highlightPart_ext: "heapExt w (highlightPart ms w)"
proof -
  have "heapExt w (snd (newMaterial highlightMaterial w))"
    by (simp add: newMaterial_def heapExt_def)
  moreover have "heapExt (snd (newMaterial highlightMaterial w))
      (fold (applyHighlight (fst (newMaterial highlightMaterial w))) ms (snd (newMaterial highlightMaterial w)))"
    by (rule fold_heapExt) (rule applyHighlight_ext)
  ultimately show ?thesis
    using heapExt_trans by (auto simp: highlightPart_def split: prod.splits)
qed

lemma highlights_ext: "heapExt w (fold highlightPart hs w)"
  by (rule fold_heapExt) (rule highlightPart_ext)

lemma resetStep_props:
  assumes "isMesh m"
  shows "\<exists>c. heapExt w (resetStep (m, s) w) \<and> material (resetStep (m, s) w) = (material w)(oid m \<mapsto> c)
    \<and> allocated (resetStep (m, s) w) c
    \<and> (allocated w s \<longrightarrow> appearance (resetStep (m, s) w) c = appearance w s)
    \<and> (\<forall>r\<in>set (slotRefs c). nextMaterial w \<le> r)"
proof -
  obtain c w2 where c: "cloneSlot s w = (c, w2)" by (cases "cloneSlot s w")
  then have r: "resetStep (m, s) w = w2\<lparr>material := (material w2)(oid m \<mapsto> c)\<rparr>"
    using assms by (simp add: resetStep_def)
  note p = cloneSlot_props[OF c] allocated_clone[OF c]
  have "heapExt w (resetStep (m, s) w)" using p(2) r by (simp add: heapExt_def)
  moreover have "material (resetStep (m, s) w) = (material w)(oid m \<mapsto> c)" using p(1) r by simp
  moreover have "allocated (resetStep (m, s) w) c" using p(5) r by (simp add: allocated_def)
  moreover have "appearance (resetStep (m, s) w) c = appearance w s" if "allocated w s"
  proof -
    have "appearance (resetStep (m, s) w) c = appearance w2 c" using r by (cases c) simp_all
    with p(4)[OF that] show ?thesis by simp
  qed
  moreover have "\<forall>r\<in>set (slotRefs c). nextMaterial w \<le> r" using p(3) by blast
  ultimately show ?thesis by blast
qed

lemma reset_fold:
  assumes "distinct (map (\<lambda>e. oid (fst e)) st)" and "\<forall>(m, s)\<in>set st. isMesh m \<and> allocated w s"
  shows "heapExt w (fold resetStep st w)
    \<and> (\<forall>(m, s)\<in>set st. \<exists>c. material (fold resetStep st w) (oid m) = Some c
          \<and> appearance (fold resetStep st w) c = appearance w s
          \<and> (\<forall>r\<in>set (slotRefs c). nextMaterial w \<le> r))
    \<and> (\<forall>i. i \<notin> oid ` fst ` set st \<longrightarrow> material (fold resetStep st w) i = material w i)"
  using assms
proof (induction st arbitrary: w)
  case Nil
  show ?case by (simp add: heapExt_refl)
next
  case (Cons e st)
  obtain m s where e: "e = (m, s)" by (cases e)
  define w1 where "w1 = resetStep (m, s) w"
  define w' where "w' = fold resetStep st w1"
  have wf: "isMesh m" "allocated w s" using Cons.prems e by auto
  from resetStep_props[OF wf(1), of w s] wf(2) obtain c where
    c: "heapExt w w1" "material w1 = (material w)(oid m \<mapsto> c)" "allocated w1 c"
       "appearance w1 c = appearance w s" "\<forall>r\<in>set (slotRefs c). nextMaterial w \<le> r"
    unfolding w1_def by blast
  have d: "distinct (map (\<lambda>e. oid (fst e)) st)" and notin: "oid m \<notin> oid ` fst ` set st"
    using Cons.prems e by (auto simp: image_iff)
  have a1: "\<forall>(m, s)\<in>set st. isMesh m \<and> allocated w1 s"
    using Cons.prems c(1) allocated_mono by fastforce
  from Cons.IH[OF d a1] have ih:
    "heapExt w1 w'"
    "\<forall>(m, s)\<in>set st. \<exists>c. material w' (oid m) = Some c \<and> appearance w' c = appearance w1 s
          \<and> (\<forall>r\<in>set (slotRefs c). nextMaterial w1 \<le> r)"
    "\<forall>i. i \<notin> oid ` fst ` set st \<longrightarrow> material w' i = material w1 i"
    unfolding w'_def by blast+
  have f: "fold resetStep (e # st) w = w'" by (simp add: e w1_def w'_def)
  have n: "nextMaterial w \<le> nextMaterial w1" using c(1) by (simp add: heapExt_def)
  have g1: "heapExt w w'" using c(1) ih(1) by (rule heapExt_trans)
  have g2: "\<exists>c. material w' (oid m') = Some c \<and> appearance w' c = appearance w s'
          \<and> (\<forall>r\<in>set (slotRefs c). nextMaterial w \<le> r)" if "(m', s') \<in> set (e # st)" for m' s'
  proof (cases "(m', s') \<in> set st")
    case True
    with ih(2) obtain c' where c': "material w' (oid m') = Some c'" "appearance w' c' = appearance w1 s'"
      "\<forall>r\<in>set (slotRefs c'). nextMaterial w1 \<le> r" by blast
    have "allocated w s'" using Cons.prems True by auto
    then have "appearance w1 s' = appearance w s'" using c(1) appearance_ext by blast
    with c' n show ?thesis by fastforce
  next
    case False
    with that e have eq: "m' = m" "s' = s" by auto
    have "material w' (oid m) = Some c" using ih(3) notin c(2) by simp
    moreover have "appearance w' c = appearance w1 c" using c(3) ih(1) appearance_ext by blast
    ultimately show ?thesis using c(4,5) eq by auto
  qed
  have g3: "material w' i = material w i" if "i \<notin> oid ` fst ` set (e # st)" for i
  proof -
    from that e have "i \<noteq> oid m" "i \<notin> oid ` fst ` set st" by auto
    then show ?thesis using ih(3) c(2) by simp
  qed
  from g1 g2 g3 show ?case unfolding f by blast
qed

lemma collect_keys:
  assumes "collectOriginalMaterials model [] w = (st, w')" and "(m, s) \<in> set st"
  shows "m \<in> set (traverse model) \<and> isMesh m \<and> material w (oid m) \<noteq> None"
proof (rule ccontr)
  assume "\<not> ?thesis"
  then have "m \<notin> set (traverse model) \<or> \<not> isMesh m \<or> material w (oid m) = None" by blast
  with collect_fold[OF assms(1)[unfolded collectOriginalMaterials_def]]
  have "map_of st m = map_of [] m" by blast
  then have "m \<notin> fst ` set st" by (simp add: map_of_eq_None_iff)
  with assms(2) show False by force
qed

lemma collectStep_distinct:
  "distinct (map fst (fst sw)) \<Longrightarrow> distinct (map fst (fst (collectStep x sw)))"
  by (cases sw) (auto simp: collectStep_def distinct_update split: option.splits prod.splits)

lemma collect_distinct:
  "distinct (map fst (fst sw)) \<Longrightarrow> distinct (map fst (fst (fold collectStep xs sw)))"
  by (induction xs arbitrary: sw) (auto simp: collectStep_distinct)

lemma ex_alloc: "\<forall>m\<in>set (traverse exModel). \<forall>s. material exWorld (oid m) = Some s \<longrightarrow> allocated exWorld s"
  by (simp add: ex_defs)












lemma v_add_NaN: "v_add (Vec3 NaN NaN NaN) v = Vec3 NaN NaN NaN"
  by (cases v) simp


lemma setAdd_props: "distinct ns \<Longrightarrow> distinct (setAdd c ns)" "set (setAdd c ns) = insert c (set ns)"
  by (auto simp: setAdd_def)

lemma topLevel_fold:
  "distinct ns \<Longrightarrow> distinct (fold topLevelStep xs ns)
     \<and> set (fold topLevelStep xs ns) =
         set ns \<union> ({clean (name n) | n. n \<in> set xs \<and> name n \<noteq> []} - {[], ''default'', ''scene''})"
proof (induction xs arbitrary: ns)
  case Nil
  then show ?case by simp
next
  case (Cons x xs)
  have d: "distinct (topLevelStep x ns)"
    using Cons.prems by (simp add: topLevelStep_def Let_def setAdd_props)
  have s: "set (topLevelStep x ns) = set ns \<union> ({clean (name n) | n. n = x \<and> name n \<noteq> []} - {[], ''default'', ''scene''})"
    by (auto simp: topLevelStep_def Let_def setAdd_props)
  from Cons.IH[OF d] s show ?case by auto
qed

lemma root_in_traverse: "model \<in> set (traverse model)"
  by (cases model) simp

lemma named_image:
  "{clean (name n) | n. n \<in> set xs \<and> name n \<noteq> []} = (\<lambda>n. clean (name n)) ` set (filter (\<lambda>n. name n \<noteq> []) xs)"
  by auto







section \<open>The snapshot store\<close>

text \<open>
  Claim C2. Let the snapshot store be captured from a loaded model whose objects have
  distinct identities and whose live materials are allocated. After any finite sequence of
  \<open>highlightPart\<close> calls, on any meshes, one \<open>resetModelColor\<close> gives every recorded mesh
  a material slot that looks exactly as the mesh's material did before the capture, made of
  references that are fresh: none of them is a reference of the stored snapshot, and none
  existed before the restore.
\<close>
theorem restore_after_highlights:
  assumes ids: "distinct (map oid (traverse model))"
    and alloc: "\<forall>m\<in>set (traverse model). \<forall>s. material w0 (oid m) = Some s \<longrightarrow> allocated w0 s"
    and cap: "collectOriginalMaterials model [] w0 = (st, w1)"
    and hl: "w2 = fold highlightPart hs w1"
    and rec: "(m, s) \<in> set st"
  shows "\<exists>s0 c. material w0 (oid m) = Some s0
           \<and> material (resetModelColor st w2) (oid m) = Some c
           \<and> appearance (resetModelColor st w2) c = appearance w0 s0
           \<and> set (slotRefs c) \<inter> set (slotRefs s) = {}
           \<and> (\<forall>r\<in>set (slotRefs c). nextMaterial w2 \<le> r)"
proof -
  note cf = collect_fold[OF cap[unfolded collectOriginalMaterials_def]]
  have keys: "\<And>m s. (m, s) \<in> set st \<Longrightarrow> m \<in> set (traverse model) \<and> isMesh m \<and> material w0 (oid m) \<noteq> None"
    using collect_keys[OF cap] by blast
  have dk: "distinct (map fst st)"
    using collect_distinct[of "([], w0)" "traverse model"] cap
    by (simp add: collectOriginalMaterials_def)
  have inj: "inj_on oid (set (traverse model))" using ids by (simp add: distinct_map)
  have io: "inj_on oid (set (map fst st))" using keys by (intro inj_on_subset[OF inj]) auto
  have "distinct (map oid (map fst st))" using dk io by (subst distinct_map) blast
  then have d: "distinct (map (\<lambda>e. oid (fst e)) st)" by (simp add: comp_def)
  from keys[OF rec] obtain s0 where s0: "material w0 (oid m) = Some s0" "m \<in> set (traverse model)" "isMesh m"
    by auto
  have as0: "allocated w0 s0" using alloc s0 by blast
  have stored: "\<exists>c. map_of st m' = Some c \<and> appearance w1 c = appearance w0 s'
       \<and> (\<forall>r\<in>set (slotRefs c). nextMaterial w0 \<le> r \<and> r < nextMaterial w1)"
    if "m' \<in> set (traverse model)" "isMesh m'" "material w0 (oid m') = Some s'" for m' s'
    using cf that alloc by blast
  have e12: "heapExt w1 w2" unfolding hl by (rule highlights_ext)
  have al1: "allocated w1 s'" if "(m', s') \<in> set st" for m' s'
  proof -
    from keys[OF that] obtain t where t: "material w0 (oid m') = Some t" "m' \<in> set (traverse model)" "isMesh m'"
      by auto
    from stored[OF t(2,3,1)] obtain c where c: "map_of st m' = Some c"
      "\<forall>r\<in>set (slotRefs c). nextMaterial w0 \<le> r \<and> r < nextMaterial w1" by blast
    have "map_of st m' = Some s'" using dk that by simp
    with c show ?thesis by (auto simp: allocated_def list_all_iff)
  qed
  have a2: "\<forall>(m, s)\<in>set st. isMesh m \<and> allocated w2 s"
    using keys al1 e12 allocated_mono by fast
  from reset_fold[OF d a2] rec obtain c where c:
    "material (resetModelColor st w2) (oid m) = Some c"
    "appearance (resetModelColor st w2) c = appearance w2 s"
    "\<forall>r\<in>set (slotRefs c). nextMaterial w2 \<le> r"
    unfolding resetModelColor_def by blast
  from stored[OF s0(2,3,1)] obtain c0 where c0: "map_of st m = Some c0" "appearance w1 c0 = appearance w0 s0"
    by blast
  have "map_of st m = Some s" using dk rec by simp
  with c0 have s1: "appearance w1 s = appearance w0 s0" by simp
  have "appearance w2 s = appearance w1 s" using al1[OF rec] e12 appearance_ext by blast
  with s1 c(2) have g: "appearance (resetModelColor st w2) c = appearance w0 s0" by simp
  have "allocated w2 s" using a2 rec by blast
  then have "\<forall>r\<in>set (slotRefs s). r < nextMaterial w2" by (simp add: allocated_def list_all_iff)
  with c(3) have disj: "set (slotRefs c) \<inter> set (slotRefs s) = {}" by fastforce
  from s0(1) c(1) g disj c(3) show ?thesis by blast
qed

text \<open>
  The claim at the example assembly: the second bracket, recorded with the array of clones
  4 and 5, is highlighted twice and restored to the look of its two original materials.
\<close>
theorem restore_after_highlights_witness:
  "\<exists>c. material (resetModelColor (fst exFirst) (fold highlightPart exHighlights (snd exFirst))) (oid exMesh2) = Some c
      \<and> appearance (resetModelColor (fst exFirst) (fold highlightPart exHighlights (snd exFirst))) c =
          appearance exWorld (Multi [1, 2])
      \<and> set (slotRefs c) \<inter> set (slotRefs (Multi [4, 5])) = {}"
proof -
  have h1: "distinct (map oid (traverse exModel))" by (simp add: ex_defs)
  have h3: "collectOriginalMaterials exModel [] exWorld = (fst exFirst, snd exFirst)"
    by (simp add: exFirst_def)
  have h5: "(exMesh2, Multi [4, 5]) \<in> set (fst exFirst)" by (simp add: ex_defs)
  have m: "material exWorld (oid exMesh2) = Some (Multi [1, 2])" by (simp add: ex_defs)
  from restore_after_highlights[OF h1 ex_alloc h3 refl h5] m show ?thesis by auto
qed

text \<open>
  Claim C5, as the code has it. \<open>collectOriginalMaterials\<close> does not look whether a mesh
  is already recorded: for every mesh under the root that has a material, it records a
  fresh clone of the current live material, in place of whatever snapshot the store held
  for that mesh. Nothing live is touched: the world changes only by the material objects
  the call allocates, so every mesh keeps its material slot and every material object
  that existed keeps its properties. The entries of all other meshes are unchanged. A
  repeated capture therefore keeps the look of a recorded snapshot only when the live
  material still looks like it.
\<close>
theorem capture_overwrites:
  assumes "collectOriginalMaterials model st w = (st', w')"
    and "\<forall>m\<in>set (traverse model). \<forall>s. material w (oid m) = Some s \<longrightarrow> allocated w s"
  shows "w' = w\<lparr>matHeap := matHeap w', nextMaterial := nextMaterial w'\<rparr>
    \<and> nextMaterial w \<le> nextMaterial w'
    \<and> (\<forall>r<nextMaterial w. matHeap w' r = matHeap w r)
    \<and> (\<forall>m. (m \<notin> set (traverse model) \<or> \<not> isMesh m \<or> material w (oid m) = None)
           \<longrightarrow> map_of st' m = map_of st m)
    \<and> (\<forall>m s. m \<in> set (traverse model) \<and> isMesh m \<and> material w (oid m) = Some s \<longrightarrow>
          (\<exists>c. map_of st' m = Some c \<and> appearance w' c = appearance w s
             \<and> (\<forall>r\<in>set (slotRefs c). nextMaterial w \<le> r \<and> r < nextMaterial w')))"
proof -
  note cf = collect_fold[OF assms(1)[unfolded collectOriginalMaterials_def]]
  note fr = collect_frame[OF assms(1)[unfolded collectOriginalMaterials_def]]
  have ext: "nextMaterial w \<le> nextMaterial w'" "\<forall>r<nextMaterial w. matHeap w' r = matHeap w r"
    using cf by (simp_all add: heapExt_def)
  have "\<exists>c. map_of st' m = Some c \<and> appearance w' c = appearance w s
             \<and> (\<forall>r\<in>set (slotRefs c). nextMaterial w \<le> r \<and> r < nextMaterial w')"
    if "m \<in> set (traverse model)" "isMesh m" "material w (oid m) = Some s" for m s
  proof -
    have "allocated w s" using assms(2) that by blast
    with cf that show ?thesis by blast
  qed
  with cf fr ext show ?thesis by blast
qed

text \<open>
  Against claim C5 as stated: the first bracket is captured (its snapshot looks like
  steel), highlighted, and captured again; its recorded snapshot now looks like the
  highlight material.
\<close>
theorem capture_overwrites_counterexample:
  "map_option (appearance (snd exFirst)) (map_of (fst exFirst) exMesh1) = Some (One (Some steel))
   \<and> map_option (appearance (snd exSecond)) (map_of (fst exSecond) exMesh1) = Some (One (Some highlightMaterial))"
  by (simp add: ex_defs)

text \<open>
  The amended claim at that second capture: the meshes keep their slots, the material
  objects 0 (steel) and 7 (the highlight clone) keep their properties, and the snapshot of
  the first bracket is a clone of its live slot, the highlight clone 7.
\<close>
theorem capture_overwrites_witness:
  "material (snd exSecond) = material (highlightPart [exMesh1] (snd exFirst))
   \<and> matHeap (snd exSecond) 0 = matHeap (highlightPart [exMesh1] (snd exFirst)) 0
   \<and> matHeap (snd exSecond) 7 = matHeap (highlightPart [exMesh1] (snd exFirst)) 7
   \<and> (\<exists>c. map_of (fst exSecond) exMesh1 = Some c
         \<and> appearance (snd exSecond) c = appearance (highlightPart [exMesh1] (snd exFirst)) (Single 7))"
proof -
  have h1: "collectOriginalMaterials exModel (fst exFirst) (highlightPart [exMesh1] (snd exFirst)) =
      (fst exSecond, snd exSecond)" by (simp add: exSecond_def)
  have h2: "\<forall>m\<in>set (traverse exModel). \<forall>s. material (highlightPart [exMesh1] (snd exFirst)) (oid m) = Some s
       \<longrightarrow> allocated (highlightPart [exMesh1] (snd exFirst)) s"
    by (simp add: ex_defs)
  have h3: "exMesh1 \<in> set (traverse exModel) \<and> isMesh exMesh1
      \<and> material (highlightPart [exMesh1] (snd exFirst)) (oid exMesh1) = Some (Single 7)"
    by (simp add: ex_defs)
  have h4: "(0::nat) < nextMaterial (highlightPart [exMesh1] (snd exFirst))"
      "(7::nat) < nextMaterial (highlightPart [exMesh1] (snd exFirst))"
    by (simp_all add: ex_defs)
  note t = capture_overwrites[OF h1 h2]
  from t have eq: "snd exSecond = (highlightPart [exMesh1] (snd exFirst))
      \<lparr>matHeap := matHeap (snd exSecond), nextMaterial := nextMaterial (snd exSecond)\<rparr>" by blast
  have a: "material (snd exSecond) = material (highlightPart [exMesh1] (snd exFirst))"
    by (subst eq) simp
  from t h3 h4 a show ?thesis by blast
qed


section \<open>Camera framing\<close>

text \<open>
  Claim C6 at a failing input. The bounding box of the target is numerically invalid:
  its corners are NaN. The comparison \<open>maxDim > 0.01\<close> fails, so \<open>fitCameraToObject\<close> takes
  the safe extent 200, but it adds the offset to the centre of the box, which is NaN, and
  every coordinate of the camera position it writes is NaN. The same happens when the
  component loads a model with such a box: \<open>normalizeModelSizeAndPosition\<close> sees that the
  size is not finite and leaves the position of the model alone, and the
  \<open>fitCameraToObject\<close> that follows it leaves the run's camera at NaN.
\<close>
theorem nan_box_not_finite:
  "effectiveDim (js_max3 (vx (getSize nanBox)) (vy (getSize nanBox)) (vz (getSize nanBox))) = SAFE_DIM
   \<and> cameraPosition (fst (fitCameraToObject (exBackend nanBox) exWorld exCamera exControls exModel)) =
        Vec3 NaN NaN NaN
   \<and> cameraPosition (camera (inter (runs exNanLoaded ! 0))) = Vec3 NaN NaN NaN
   \<and> position (theWorld exNanLoaded) (oid exModel) = position exWorld (oid exModel)"
  by (simp add: fitCameraToObject_def framePose_def Let_def frame_defs v_add_NaN effectiveDim_def
      exNanLoaded_def run_defs ex_defs split: prod.splits)





section \<open>Part identities, listing and extraction\<close>

text \<open>
  Claim C4 at failing inputs. For the node name "Bracket-01" the click handler derives
  "Bracket" where part extraction and the listing derive "bracket"; for "bracket -01"
  the hierarchy search derives "bracket " with the trailing space where part extraction
  derives "bracket".
\<close>
theorem identity_differs_by_call_site:
  "clickPartName ''Bracket-01'' = Some ''Bracket'' \<and> cleanNodeName ''Bracket-01'' = ''bracket''
   \<and> clean ''Bracket-01'' = ''bracket'' \<and> childBase ''bracket -01'' = ''bracket ''
   \<and> cleanNodeName ''bracket -01'' = ''bracket''"
  by (simp add: clickPartName_def cleanNodeName_def clean_def childBase_def trim_def splitHead_def
      toLowerCase_def isSpace_def)

text \<open>
  Claim C9, as the code has it. The list \<open>getTopLevelNodes\<close> returns has no duplicates.
  It is empty when the load fails. When some named node has an identity other than the
  empty one, "default" and "scene", the list holds exactly those identities. When none
  has, the list is empty for an unnamed root, and otherwise holds the identity of the
  root alone, which is then empty, "default" or "scene".
\<close>
theorem listing_of_identities:
  "distinct (getTopLevelNodes B url)
   \<and> (\<forall>e. loadAsync B url = Inl e \<longrightarrow> getTopLevelNodes B url = [])
   \<and> (\<forall>model. loadAsync B url = Inr model \<longrightarrow>
        (if {clean (name n) | n. n \<in> set (traverse model) \<and> name n \<noteq> []} - {[], ''default'', ''scene''} \<noteq> {}
         then set (getTopLevelNodes B url) =
                {clean (name n) | n. n \<in> set (traverse model) \<and> name n \<noteq> []} - {[], ''default'', ''scene''}
         else getTopLevelNodes B url = (if name model = [] then [] else [clean (name model)])
              \<and> (name model \<noteq> [] \<longrightarrow> clean (name model) \<in> {[], ''default'', ''scene''})))"
proof (cases "loadAsync B url")
  case (Inl e)
  then show ?thesis by (simp add: getTopLevelNodes_def)
next
  case (Inr model)
  let ?A = "{clean (name n) | n. n \<in> set (traverse model) \<and> name n \<noteq> []} - {[], ''default'', ''scene''}"
  let ?ns = "fold topLevelStep (traverse model) []"
  have f: "distinct ?ns" "set ?ns = ?A" using topLevel_fold[of "[]" "traverse model"] by auto
  have g: "getTopLevelNodes B url = (if ?ns = [] \<and> name model \<noteq> [] then setAdd (clean (name model)) ?ns else ?ns)"
    using Inr by (simp add: getTopLevelNodes_def Let_def)
  have e: "?ns = [] \<longleftrightarrow> ?A = {}" using f(2) by (metis set_empty)
  have dist: "distinct (getTopLevelNodes B url)" unfolding g using f(1) by (simp add: setAdd_props)
  have main: "if ?A \<noteq> {} then set (getTopLevelNodes B url) = ?A
         else getTopLevelNodes B url = (if name model = [] then [] else [clean (name model)])
              \<and> (name model \<noteq> [] \<longrightarrow> clean (name model) \<in> {[], ''default'', ''scene''})"
  proof (cases "?A = {}")
    case True
    then have n: "?ns = []" using e by simp
    have "clean (name model) \<in> {[], ''default'', ''scene''}" if "name model \<noteq> []"
    proof (rule ccontr)
      assume "clean (name model) \<notin> {[], ''default'', ''scene''}"
      with that root_in_traverse[of model] have "clean (name model) \<in> ?A" by blast
      with True show False by blast
    qed
    with True n show ?thesis unfolding g by (simp add: setAdd_def)
  next
    case False
    then have "?ns \<noteq> []" using e by simp
    with False f(2) show ?thesis unfolding g by simp
  qed
  from dist main Inr show ?thesis by simp
qed

text \<open>
  Against claim C9 as stated: an asset whose root is named "Scene" and whose only other
  node is unnamed is listed as the reserved name "scene".
\<close>
theorem reserved_name_counterexample:
  "getTopLevelNodes (exLoader sceneOnly) ''model.glb'' = [''scene'']"
  by (simp add: getTopLevelNodes_def exLoader_def sceneOnly_def topLevelStep_def clean_def trim_def
      splitHead_def toLowerCase_def isSpace_def setAdd_def)

text \<open>The amended claim at the example assembly.\<close>
theorem listing_of_identities_witness:
  "distinct (getTopLevelNodes (exLoader exModel) ''model.glb'')
   \<and> set (getTopLevelNodes (exLoader exModel) ''model.glb'') = {''assembly'', ''bracket''}"
proof -
  have l: "loadAsync (exLoader exModel) ''model.glb'' = Inr exModel" by (simp add: exLoader_def)
  have a: "{clean (name n) | n. n \<in> set (traverse exModel) \<and> name n \<noteq> []} - {[], ''default'', ''scene''}
      = {''assembly'', ''bracket''}"
    unfolding named_image by (simp add: ex_defs clean_def trim_def splitHead_def toLowerCase_def isSpace_def)
  from listing_of_identities[of "exLoader exModel" "''model.glb''"] l a show ?thesis by auto
qed

text \<open>
  Claim C3 at a failing input. In the example assembly two nodes have the identity
  "bracket". \<open>extractPartByName\<close> keeps traversing after a match (the \<open>return\<close> leaves the
  callback only), clones each matching node in turn and returns the clone of the last
  one, "bracket-02", where \<open>findNodeByBaseName\<close> returns the first, "Bracket-01".
\<close>
theorem extract_returns_last_match:
  "fst (extractPartByName (exBackend unitBox) exModel ''bracket'' exWorld) = Some (Obj3D 101 ''bracket-02'' True [])
   \<and> findNodeByBaseName exModel ''bracket'' = Some (Obj3D 1 ''Bracket-01'' True [])"
  by (simp add: extractPartByName_def extractStep_def ex_defs exBackend_def cleanNodeName_def trim_def
      splitHead_def toLowerCase_def isSpace_def cloneMeshData_def cloneGeometry_def findNodeByBaseName_def findStep_def
      childBase_def Let_def split: prod.splits)


section \<open>Picking and selection\<close>

text \<open>
  Claim C10. Whatever the screen coordinates and the viewport, \<open>getIntersects\<close> answers
  no hit when the session's \<open>mesh\<close> reference is null. The function of the model has no
  error result: no step of \<open>getIntersects\<close> before that test can throw.
\<close>
theorem pick_without_model:
  "mesh sc = None \<Longrightarrow> snd (getIntersects B clientX clientY container sc w) = None"
  by (simp add: getIntersects_def Let_def)

text \<open>The claim at the scene \<open>setupScene\<close> has just built, before any load.\<close>
theorem pick_without_model_witness:
  "snd (getIntersects (exBackend unitBox) (Fin 10) (Fin 10) exRect (fst (setupScene exWorld)) exWorld) = None"
proof -
  have "mesh (fst (setupScene exWorld)) = None" by (simp add: setupScene_def Let_def)
  from pick_without_model[OF this] show ?thesis .
qed





section \<open>Loads that resolve late\<close>

text \<open>
  Claim C1 at a failing input. The effect runs for a first model, is cleaned up before
  the load resolves, and runs again for a second model; then the first load resolves.
  Its result is not discarded: it becomes the \<open>mesh\<close> of the first run's released scene,
  is added to that scene, fills that run's snapshot store and is never disposed, and the
  component reports a loaded model (\<open>isModelLoaded\<close>, \<open>onModelLoaded\<close>) and stops showing
  the loading state while the second load is still pending.
\<close>
theorem stale_load_attaches:
  "sceneRef exStale = Some 1
   \<and> released (runs exStale ! 0)
   \<and> mesh (inter (runs exStale ! 0)) = Some exModel
   \<and> exModel \<in> set (childrenOf (theWorld exStale) (scene (inter (runs exStale ! 0))))
   \<and> map fst (originalMaterials (inter (runs exStale ! 0))) = [exMesh1, exMesh2]
   \<and> disposedMaterials (theWorld exStale) = {} \<and> disposedGeometries (theWorld exStale) = {}
   \<and> isModelLoaded exStale \<and> \<not> isLoadingPart exStale \<and> onModelLoaded exStale = [exModel]
   \<and> mesh (inter (runs exStale ! 1)) = None"
  by (simp add: run_defs ex_defs Let_def split: prod.splits)


end
